theory Spec2Isabelle
  imports Main
begin

text \<open>
  Two components of the Vue bindings for MapLibre GL: the hillshade layer
  (\<open>lib/components/layers/hillshade.layer.ts\<close>) and the popup
  (\<open>lib/components/popup.component.ts\<close>). Each is a \<open>setup\<close> function that turns props and
  injected values into calls on the map engine and registers watchers and lifecycle
  hooks. The engine and the framework are outside the repository: the engine appears as
  the state its methods write together with the calls it received, the framework as the
  order in which it runs the callbacks a component registered.
\<close>

section \<open>JavaScript values used by the components\<close>

text \<open>
  The components test values with JavaScript truthiness. A value that may be
  \<open>undefined\<close> is an \<open>option\<close>; a string is falsy when it is \<open>undefined\<close> or empty.
\<close>

definition truthy_str :: "string option \<Rightarrow> bool" where
  "truthy_str v = (case v of None \<Rightarrow> False | Some s \<Rightarrow> s \<noteq> [])"

text \<open>\<open>v || undefined\<close> on an optional string: a falsy value becomes \<open>undefined\<close>.\<close>

definition or_undefined :: "string option \<Rightarrow> string option" where
  "or_undefined v = (if truthy_str v then v else None)"

text \<open>\<open>if (v) f(v)\<close> on an optional string.\<close>

definition when_truthy :: "string option \<Rightarrow> (string \<Rightarrow> 'a \<Rightarrow> 'a) \<Rightarrow> 'a \<Rightarrow> 'a" where
  "when_truthy v f x = (case v of None \<Rightarrow> x | Some s \<Rightarrow> (if s \<noteq> [] then f s x else x))"

text \<open>
  The same for a call that may raise: the result is the exception raised, if any, and
  the state the call left behind.
\<close>

definition when_truthy_raising ::
    "string option \<Rightarrow> (string \<Rightarrow> 'a \<Rightarrow> 'e option \<times> 'a) \<Rightarrow> 'a \<Rightarrow> 'e option \<times> 'a" where
  "when_truthy_raising v f x =
     (case v of None \<Rightarrow> (None, x) | Some s \<Rightarrow> (if s \<noteq> [] then f s x else (None, x)))"

text \<open>\<open>v || ""\<close> on an optional string.\<close>

definition or_empty :: "string option \<Rightarrow> string" where
  "or_empty v = (case v of None \<Rightarrow> [] | Some s \<Rightarrow> (if s \<noteq> [] then s else []))"

section \<open>The hillshade layer component (hillshade.layer.ts)\<close>

subsection \<open>Props and injected values\<close>

type_synonym style_bag = "(string \<times> string) list"

text \<open>
  The \<open>source\<close> prop of the shared layer props is a source id or an inline source
  object; an object is always truthy.
\<close>

datatype source_prop = SourceName string | SourceObject style_bag

definition truthy_source :: "source_prop option \<Rightarrow> bool" where
  "truthy_source v =
     (case v of None \<Rightarrow> False | Some (SourceName s) \<Rightarrow> s \<noteq> [] | Some (SourceObject _) \<Rightarrow> True)"

record layer_props =
  layerId :: string
  source :: "source_prop option"
  before :: "string option"
  layout :: "style_bag option"
  paint :: "style_bag option"

text \<open>
  What \<open>setup\<close> injects: the source id of an enclosing source component (if any), and
  the current values of the two reactive references it watches. \<open>isLoaded\<close> is the
  engine-ready flag; \<open>sourceRef\<close> is the value of the reference that
  \<open>SourceLib.getSourceRef\<close> returns (that function is not part of the sources, so its
  result is an input here): \<open>Some True\<close> for a truthy value (the source is registered),
  \<open>Some False\<close> for a falsy value other than \<open>undefined\<close> (the source is absent),
  \<open>None\<close> for \<open>undefined\<close> (no source dependency).
\<close>

record layer_ctx =
  sourceId :: "string option"
  isLoaded :: bool
  sourceRef :: "bool option"

subsection \<open>The engine as the component sees it\<close>

text \<open>
  \<open>LayerLib.genLayerOpts\<close> is not part of the sources: the options object is kept as
  the arguments the component passes to it.
\<close>

datatype layer_opts = GenLayerOpts string string layer_props "string option"

datatype engine_call =
    AddLayer layer_opts "string option"
  | RegisterLayerEvents string
  | UnregisterLayerEvents string
  | RemoveLayer string

text \<open>
  The map engine is an external collaborator. It is represented by what the component
  can do to it: the layers it holds (by id), the layers whose events are forwarded, the
  calls received in order, and the diagnostics \<open>warn\<close> recorded. The source asserts the
  map handle with \<open>!\<close>, so the handle is taken to be set.
\<close>

record world =
  layers :: "string list"
  forwarded :: "string list"
  calls :: "engine_call list"
  warnings :: "string list"

fun opts_id :: "layer_opts \<Rightarrow> string" where
  "opts_id (GenLayerOpts i _ _ _) = i"

definition addLayer :: "layer_opts \<Rightarrow> string option \<Rightarrow> world \<Rightarrow> world" where
  "addLayer opts bef w =
     w\<lparr>layers := List.insert (opts_id opts) (layers w),
       calls := calls w @ [AddLayer opts bef]\<rparr>"

definition registerLayerEvents :: "string \<Rightarrow> world \<Rightarrow> world" where
  "registerLayerEvents i w =
     w\<lparr>forwarded := List.insert i (forwarded w),
       calls := calls w @ [RegisterLayerEvents i]\<rparr>"

definition warn :: "string \<Rightarrow> world \<Rightarrow> world" where
  "warn msg w = w\<lparr>warnings := warnings w @ [msg]\<rparr>"

subsection \<open>The readiness watcher\<close>

text \<open>The condition of the watcher: \<open>il && (src || src === undefined)\<close>.\<close>

definition satisfied :: "bool \<times> bool option \<Rightarrow> bool" where
  "satisfied obs = (case obs of (il, src) \<Rightarrow> il \<and> (src = Some True \<or> src = None))"

text \<open>
  The callback of \<open>watch([isLoaded, sourceRef], ...)\<close>, applied to one observation of
  the pair.
\<close>

definition on_readiness ::
    "layer_props \<Rightarrow> string option \<Rightarrow> bool \<times> bool option \<Rightarrow> world \<Rightarrow> world" where
  "on_readiness props sid obs w =
     (if satisfied obs
      then registerLayerEvents (layerId props)
             (addLayer (GenLayerOpts (layerId props) ''hillshade'' props sid)
                (or_undefined (before props)) w)
      else w)"

text \<open>
  The watcher runs its callback once for every observation the framework delivers, in
  the order of the changes.
\<close>

fun observe_all ::
    "layer_props \<Rightarrow> string option \<Rightarrow> (bool \<times> bool option) list \<Rightarrow> world \<Rightarrow> world" where
  "observe_all props sid [] w = w"
| "observe_all props sid (obs # rest) w = observe_all props sid rest (on_readiness props sid obs w)"

fun is_add_layer :: "engine_call \<Rightarrow> bool" where
  "is_add_layer (AddLayer _ _) = True"
| "is_add_layer _ = False"

definition add_calls :: "world \<Rightarrow> nat" where
  "add_calls w = length (filter is_add_layer (calls w))"

subsection \<open>Setup and lifecycle\<close>

text \<open>
  Registering a watcher with \<open>watch(sources, cb, options)\<close>: with \<open>immediate: true\<close> the
  framework runs the callback once at registration, on the current values of the
  sources; without it nothing runs at registration. Afterwards the callback runs once
  per change (\<open>deliver\<close> below).
\<close>

definition watch :: "('o \<Rightarrow> 'w \<Rightarrow> 'w) \<Rightarrow> bool \<Rightarrow> 'o \<Rightarrow> 'w \<Rightarrow> 'w" where
  "watch cb immediate current w = (if immediate then cb current w else w)"

text \<open>
  What \<open>setup\<close> leaves behind: nothing when it returned early, otherwise the watcher and
  the teardown registered for the layer; \<open>Unmounted\<close> once the component is gone (the
  framework stops the watchers of an unmounted component).
\<close>

datatype binding = Aborted | Active layer_props "string option" | Unmounted

definition hillshade_setup :: "layer_props \<Rightarrow> layer_ctx \<Rightarrow> world \<Rightarrow> binding \<times> world" where
  "hillshade_setup props ctx w =
     (if \<not> truthy_str (sourceId ctx) \<and> \<not> truthy_source (source props)
      then (Aborted,
            warn ''Hillshade Layer: layer must be used inside source tag or source prop must be set'' w)
      else (Active props (sourceId ctx),
            watch (on_readiness props (sourceId ctx)) True (isLoaded ctx, sourceRef ctx) w))"

text \<open>
  Modelled from the spec: \<open>useDisposableLayer\<close> (\<open>lib/composable/useDisposableLayer\<close>) is
  not among the sources. The spec's teardown: on unmount the forwarded listeners of the
  layer are detached and the layer is removed, whatever the readiness state; removing
  an absent layer is a no-op, and remove-layer is never invoked for an id that is not in
  the engine.
\<close>

definition dispose_layer :: "string \<Rightarrow> world \<Rightarrow> world" where
  "dispose_layer i w =
     (let w1 = w\<lparr>forwarded := removeAll i (forwarded w),
                 calls := calls w @ [UnregisterLayerEvents i]\<rparr>
      in if i \<in> set (layers w1)
         then w1\<lparr>layers := removeAll i (layers w1), calls := calls w1 @ [RemoveLayer i]\<rparr>
         else w1)"

text \<open>
  What happens to a component after \<open>setup\<close>: a change of the watched pair is delivered
  to its watcher, or the component is unmounted.
\<close>

datatype lifecycle = Changed bool "bool option" | Unmount

fun deliver :: "lifecycle \<Rightarrow> binding \<times> world \<Rightarrow> binding \<times> world" where
  "deliver (Changed il src) (Active props sid, w) =
     (Active props sid, on_readiness props sid (il, src) w)"
| "deliver Unmount (Active props sid, w) = (Unmounted, dispose_layer (layerId props) w)"
| "deliver _ (Aborted, w) = (Aborted, w)"
| "deliver _ (Unmounted, w) = (Unmounted, w)"

fun run :: "lifecycle list \<Rightarrow> binding \<times> world \<Rightarrow> binding \<times> world" where
  "run [] s = s"
| "run (e # es) s = run es (deliver e s)"

fun is_remove_layer :: "engine_call \<Rightarrow> bool" where
  "is_remove_layer (RemoveLayer _) = True"
| "is_remove_layer _ = False"

definition remove_calls :: "world \<Rightarrow> nat" where
  "remove_calls w = length (filter is_remove_layer (calls w))"

section \<open>The popup component (popup.component.ts)\<close>

subsection \<open>Props and injected values\<close>

text \<open>
  Coordinates, offsets and DOM nodes are only handed through to the engine; they are
  kept as plain values. An object is always truthy, so a coordinates prop is falsy only
  when it is \<open>undefined\<close>.
\<close>

datatype lng_lat = LngLat int int

datatype dom_node = DomNode nat

type_synonym map_handle = nat

type_synonym marker_handle = nat

text \<open>The prop \<open>text\<close> of the source is the field \<open>text_p\<close>.\<close>

record popup_props =
  coordinates :: "lng_lat option"
  closeButton :: bool
  closeOnClick :: bool
  closeOnMove :: bool
  focusAfterOpen :: bool
  anchor :: "string option"
  offset :: "int option"
  className :: "string option"
  maxWidth :: string
  subpixelPositioning :: bool
  text_p :: "string option"

text \<open>
  \<open>inject(mapSymbol)\<close> is \<open>undefined\<close> when no map provides it; its value is asserted
  with \<open>!\<close> in the source and taken to be a handle. \<open>inject(markerSymbol, undefined)\<close>
  is \<open>undefined\<close> outside a marker, and otherwise a reference whose value may be unset.
\<close>

record popup_ctx =
  map_inj :: "map_handle option"
  marker_inj :: "marker_handle option option"

subsection \<open>The engine's popup object\<close>

text \<open>The closure \<open>() => emit(eventName)\<close> that \<open>emitEvent\<close> creates.\<close>

datatype handler = EmitFn string

datatype popup_content = NoContent | TextContent string | DOMContent dom_node

datatype popup_call =
    MarkerSetPopup marker_handle
  | SetLngLat lng_lat
  | AddTo map_handle
  | SetText string
  | SetDOMContent dom_node
  | SetOffset "int option"
  | SetMaxWidth string
  | AddClassName string
  | RemoveClassName string
  | SetSubpixelPositioning bool
  | On string handler
  | Off string handler
  | Remove

subsection \<open>The class list of the popup's container\<close>

text \<open>
  The engine keeps the class names of a popup on its container element, a DOM
  \<open>classList\<close>. \<open>classList.add\<close> and \<open>classList.remove\<close> take one class name: they raise
  \<open>SyntaxError\<close> on the empty string and \<open>InvalidCharacterError\<close> on a name that holds
  ASCII whitespace (tab, line feed, form feed, carriage return, space), and change
  nothing then.
\<close>

datatype dom_error = SyntaxError | InvalidCharacterError

definition ascii_whitespace :: "char \<Rightarrow> bool" where
  "ascii_whitespace c =
     (c = CHR 0x09 \<or> c = CHR 0x0A \<or> c = CHR 0x0C \<or> c = CHR 0x0D \<or> c = CHR 0x20)"

definition token_error :: "string \<Rightarrow> dom_error option" where
  "token_error t =
     (if t = [] then Some SyntaxError
      else if list_ex ascii_whitespace t then Some InvalidCharacterError
      else None)"

definition classList_add :: "string \<Rightarrow> string list \<Rightarrow> dom_error + string list" where
  "classList_add t cl =
     (case token_error t of
        Some e \<Rightarrow> Inl e
      | None \<Rightarrow> Inr (if t \<in> set cl then cl else cl @ [t]))"

definition classList_remove :: "string \<Rightarrow> string list \<Rightarrow> dom_error + string list" where
  "classList_remove t cl =
     (case token_error t of
        Some e \<Rightarrow> Inl e
      | None \<Rightarrow> Inr (removeAll t cl))"

text \<open>\<open>s.split(' ')\<close>: the pieces of a string between its spaces, empty pieces included.\<close>

fun split_spaces :: "string \<Rightarrow> string list" where
  "split_spaces [] = [[]]"
| "split_spaces (c # cs) =
     (if c = CHR 0x20 then [] # split_spaces cs
      else (case split_spaces cs of [] \<Rightarrow> [[c]] | t # ts \<Rightarrow> (c # t) # ts))"

text \<open>
  The loop \<open>for (const name of options.className.split(' ')) classList.add(name)\<close> of
  the engine, which runs when the container is built: the class list it leaves behind.
  A name that \<open>classList.add\<close> refuses ends the loop with an exception; the names
  before it are on the container. The class list is kept here; the exception is not
  followed further.
\<close>

fun add_names :: "string list \<Rightarrow> string list \<Rightarrow> string list" where
  "add_names [] cl = cl"
| "add_names (n # ns) cl =
     (case classList_add n cl of Inl e \<Rightarrow> cl | Inr cl' \<Rightarrow> add_names ns cl')"

definition option_names :: "string option \<Rightarrow> string list" where
  "option_names v = when_truthy v (\<lambda>s cl. add_names (split_spaces s) cl) []"

subsection \<open>The popup and its methods\<close>

text \<open>
  The popup is an object of the engine. It is represented by the state its methods
  write and by the calls it received from the component, in order. \<open>container\<close> is the
  class list of the container element, \<open>None\<close> while the popup has no container. Of
  the class names only those that come from the \<open>className\<close> option and from
  \<open>addClassName\<close> are kept; the names the engine puts there for itself are left out.
\<close>

record popup =
  options :: popup_props
  lngLat :: "lng_lat option"
  on_map :: "map_handle option"
  on_marker :: "marker_handle option"
  content :: popup_content
  cur_offset :: "int option"
  cur_maxWidth :: string
  subpixel :: bool
  container :: "string list option"
  listeners :: "(string \<times> handler) list"
  pcalls :: "popup_call list"

text \<open>The constructor builds no container.\<close>

definition new_Popup :: "popup_props \<Rightarrow> popup" where
  "new_Popup props =
     \<lparr>options = props, lngLat = None, on_map = None, on_marker = None, content = NoContent,
      cur_offset = offset props, cur_maxWidth = maxWidth props,
      subpixel = subpixelPositioning props,
      container = None,
      listeners = [], pcalls = []\<rparr>"

text \<open>
  The engine's \<open>_update\<close>, which the setters below call: a popup that is on a map and
  has a position and content gets its container, if it has none yet, with the class
  names of the \<open>className\<close> option as it was given to the constructor, split on spaces.
  The option is never written again, so a container that is built later starts from the
  same names.
\<close>

definition popup_update :: "popup \<Rightarrow> popup" where
  "popup_update p =
     (if on_map p \<noteq> None \<and> lngLat p \<noteq> None \<and> content p \<noteq> NoContent \<and> container p = None
      then p\<lparr>container := Some (option_names (className (options p)))\<rparr>
      else p)"

definition setPopup :: "marker_handle \<Rightarrow> popup \<Rightarrow> popup" where
  "setPopup m p = p\<lparr>on_marker := Some m, pcalls := pcalls p @ [MarkerSetPopup m]\<rparr>"

definition setLngLat :: "lng_lat \<Rightarrow> popup \<Rightarrow> popup" where
  "setLngLat c p = popup_update (p\<lparr>lngLat := Some c, pcalls := pcalls p @ [SetLngLat c]\<rparr>)"

definition addTo :: "map_handle \<Rightarrow> popup \<Rightarrow> popup" where
  "addTo m p = popup_update (p\<lparr>on_map := Some m, pcalls := pcalls p @ [AddTo m]\<rparr>)"

definition setText :: "string \<Rightarrow> popup \<Rightarrow> popup" where
  "setText t p = popup_update (p\<lparr>content := TextContent t, pcalls := pcalls p @ [SetText t]\<rparr>)"

definition setDOMContent :: "dom_node \<Rightarrow> popup \<Rightarrow> popup" where
  "setDOMContent d p =
     popup_update (p\<lparr>content := DOMContent d, pcalls := pcalls p @ [SetDOMContent d]\<rparr>)"

definition setOffset :: "int option \<Rightarrow> popup \<Rightarrow> popup" where
  "setOffset v p = popup_update (p\<lparr>cur_offset := v, pcalls := pcalls p @ [SetOffset v]\<rparr>)"

definition setMaxWidth :: "string \<Rightarrow> popup \<Rightarrow> popup" where
  "setMaxWidth v p = popup_update (p\<lparr>cur_maxWidth := v, pcalls := pcalls p @ [SetMaxWidth v]\<rparr>)"

definition setSubpixelPositioning :: "bool \<Rightarrow> popup \<Rightarrow> popup" where
  "setSubpixelPositioning v p = p\<lparr>subpixel := v, pcalls := pcalls p @ [SetSubpixelPositioning v]\<rparr>"

text \<open>
  \<open>addClassName\<close> and \<open>removeClassName\<close> hand their argument, whole, to \<open>classList.add\<close>
  and \<open>classList.remove\<close> of the container, and do nothing when the popup has no
  container. They raise what the class list raises.
\<close>

definition addClassName :: "string \<Rightarrow> popup \<Rightarrow> dom_error option \<times> popup" where
  "addClassName c p =
     (let p' = p\<lparr>pcalls := pcalls p @ [AddClassName c]\<rparr>
      in case container p of
           None \<Rightarrow> (None, p')
         | Some cl \<Rightarrow>
           (case classList_add c cl of
              Inl e \<Rightarrow> (Some e, p')
            | Inr cl' \<Rightarrow> (None, p'\<lparr>container := Some cl'\<rparr>)))"

definition removeClassName :: "string \<Rightarrow> popup \<Rightarrow> dom_error option \<times> popup" where
  "removeClassName c p =
     (let p' = p\<lparr>pcalls := pcalls p @ [RemoveClassName c]\<rparr>
      in case container p of
           None \<Rightarrow> (None, p')
         | Some cl \<Rightarrow>
           (case classList_remove c cl of
              Inl e \<Rightarrow> (Some e, p')
            | Inr cl' \<Rightarrow> (None, p'\<lparr>container := Some cl'\<rparr>)))"

definition popup_on :: "string \<Rightarrow> handler \<Rightarrow> popup \<Rightarrow> popup" where
  "popup_on ev fn p = p\<lparr>listeners := listeners p @ [(ev, fn)], pcalls := pcalls p @ [On ev fn]\<rparr>"

definition popup_off :: "string \<Rightarrow> handler \<Rightarrow> popup \<Rightarrow> popup" where
  "popup_off ev fn p =
     p\<lparr>listeners := remove1 (ev, fn) (listeners p), pcalls := pcalls p @ [Off ev fn]\<rparr>"

text \<open>\<open>remove\<close> takes the popup off its map and deletes its container.\<close>

definition popup_remove :: "popup \<Rightarrow> popup" where
  "popup_remove p = p\<lparr>on_map := None, container := None, pcalls := pcalls p @ [Remove]\<rparr>"

subsection \<open>Setup\<close>

text \<open>
  The callbacks registered with \<open>onBeforeUnmount\<close>, in the order of registration, and
  what each does to the popup when the component is unmounted.
\<close>

datatype hook = OffHook string handler | RemoveHook


text \<open>
  A mounted popup component: the props the watchers last saw, the popup, the unmount
  hooks, whether the component is still mounted, and the exceptions that watcher
  callbacks raised (they go to the framework's error handler).
\<close>

record popup_instance =
  cur :: popup_props
  pop :: popup
  hooks :: "hook list"
  alive :: bool
  errors :: "dom_error list"

definition emitEvent :: "string \<Rightarrow> popup_instance \<Rightarrow> popup_instance" where
  "emitEvent eventName inst =
     inst\<lparr>pop := popup_on eventName (EmitFn eventName) (pop inst),
          hooks := hooks inst @ [OffHook eventName (EmitFn eventName)]\<rparr>"

text \<open>The branch \<open>if (marker && marker.value) ... else if (props.coordinates && map) ...\<close>.\<close>

definition place :: "popup_props \<Rightarrow> popup_ctx \<Rightarrow> popup \<Rightarrow> popup" where
  "place props ctx p =
     (case marker_inj ctx of
        Some (Some m) \<Rightarrow> setPopup m p
      | _ \<Rightarrow>
        (case coordinates props of
           None \<Rightarrow> p
         | Some c \<Rightarrow> (case map_inj ctx of None \<Rightarrow> p | Some mp \<Rightarrow> addTo mp (setLngLat c p))))"

definition popup_setup :: "popup_props \<Rightarrow> popup_ctx \<Rightarrow> popup_instance" where
  "popup_setup props ctx =
     (let p0 = new_Popup props;
          p1 = place props ctx p0;
          p2 = when_truthy (text_p props) setText p1;
          i0 = \<lparr>cur = props, pop = p2, hooks = [], alive = True, errors = []\<rparr>;
          i1 = emitEvent ''open'' i0;
          i2 = emitEvent ''close'' i1
      in i2\<lparr>hooks := hooks i2 @ [RemoveHook]\<rparr>)"

subsection \<open>The exposed operation, the watchers and the lifecycle hooks\<close>


text \<open>The callbacks of the six watchers, in the order of the source.\<close>

definition on_coordinates :: "lng_lat option \<Rightarrow> popup \<Rightarrow> popup" where
  "on_coordinates v p = (case v of None \<Rightarrow> p | Some c \<Rightarrow> setLngLat c p)"

definition on_text :: "string option \<Rightarrow> popup \<Rightarrow> popup" where
  "on_text v p = setText (or_empty v) p"

definition on_offset :: "int option \<Rightarrow> popup \<Rightarrow> popup" where
  "on_offset v p = setOffset v p"

definition on_maxWidth :: "string \<Rightarrow> popup \<Rightarrow> popup" where
  "on_maxWidth v p = setMaxWidth v p"

text \<open>
  The callback of the \<open>className\<close> watcher. When \<open>removeClassName\<close> raises, the callback
  ends there and \<open>addClassName\<close> is not called.
\<close>

definition on_className ::
    "string option \<Rightarrow> string option \<Rightarrow> popup \<Rightarrow> dom_error option \<times> popup" where
  "on_className v previous p =
     (case when_truthy_raising previous removeClassName p of
        (Some e, p1) \<Rightarrow> (Some e, p1)
      | (None, p1) \<Rightarrow> when_truthy_raising v addClassName p1)"

definition on_subpixelPositioning :: "bool \<Rightarrow> popup \<Rightarrow> popup" where
  "on_subpixelPositioning v p = setSubpixelPositioning v p"

text \<open>
  A watcher without \<open>immediate\<close> runs its callback when the watched prop has changed,
  with the new and the previous value. New props reach the six watchers in the order
  in which they were registered. An exception ends the callback that raised it and is
  handed to the framework; the watchers after it still run.
\<close>

definition props_updated :: "popup_props \<Rightarrow> popup_instance \<Rightarrow> popup_instance" where
  "props_updated new inst =
     (let old = cur inst;
          p0 = pop inst;
          p1 = (if coordinates new \<noteq> coordinates old then on_coordinates (coordinates new) p0 else p0);
          p2 = (if text_p new \<noteq> text_p old then on_text (text_p new) p1 else p1);
          p3 = (if offset new \<noteq> offset old then on_offset (offset new) p2 else p2);
          p4 = (if maxWidth new \<noteq> maxWidth old then on_maxWidth (maxWidth new) p3 else p3);
          r5 = (if className new \<noteq> className old
                then on_className (className new) (className old) p4 else (None, p4));
          p5 = snd r5;
          p6 = (if subpixelPositioning new \<noteq> subpixelPositioning old
                then on_subpixelPositioning (subpixelPositioning new) p5 else p5)
      in inst\<lparr>cur := new, pop := p6,
              errors := errors inst @ (case fst r5 of None \<Rightarrow> [] | Some e \<Rightarrow> [e])\<rparr>)"






fun is_add_to :: "popup_call \<Rightarrow> bool" where
  "is_add_to (AddTo _) = True"
| "is_add_to _ = False"

fun is_set_lng_lat :: "popup_call \<Rightarrow> bool" where
  "is_set_lng_lat (SetLngLat _) = True"
| "is_set_lng_lat _ = False"

fun is_marker_set_popup :: "popup_call \<Rightarrow> bool" where
  "is_marker_set_popup (MarkerSetPopup _) = True"
| "is_marker_set_popup _ = False"



subsection \<open>Invariants of a popup component\<close>


section \<open>Properties of the hillshade layer\<close>

lemma calls_on_readiness:
  "calls (on_readiness props sid obs w) =
     calls w @
       (if satisfied obs
        then [AddLayer (GenLayerOpts (layerId props) ''hillshade'' props sid)
                (or_undefined (before props)),
              RegisterLayerEvents (layerId props)]
        else [])"
  by (simp add: on_readiness_def addLayer_def registerLayerEvents_def)

text \<open>
  C3. At one observation \<open>(il, src)\<close> the watcher's callback issues the add-layer call
  exactly when \<open>il\<close> is true and \<open>src\<close> is true or undefined: the calls it appends are
  the add-layer call followed by the event registration in that case and nothing
  otherwise. So \<open>src = false\<close> blocks creation, \<open>src = undefined\<close> counts as satisfied,
  and nothing is added while \<open>il\<close> is false.
\<close>

theorem add_layer_exactly_when_satisfied:
  "calls (on_readiness props sid (il, src) w) =
     calls w @
       (if il \<and> (src = Some True \<or> src = None)
        then [AddLayer (GenLayerOpts (layerId props) ''hillshade'' props sid)
                (or_undefined (before props)),
              RegisterLayerEvents (layerId props)]
        else [])
   \<and> calls (on_readiness props sid (il, Some False) w) = calls w
   \<and> calls (on_readiness props sid (False, src) w) = calls w
   \<and> add_calls (on_readiness props sid (True, None) w) = Suc (add_calls w)
   \<and> add_calls (on_readiness props sid (True, Some True) w) = Suc (add_calls w)"
  by (simp add: calls_on_readiness satisfied_def add_calls_def)

subsection \<open>Helper facts about the watcher and the lifecycle\<close>

lemma layers_on_readiness:
  "layers (on_readiness props sid obs w) =
     (if satisfied obs then List.insert (layerId props) (layers w) else layers w)"
  by (simp add: on_readiness_def addLayer_def registerLayerEvents_def)

lemma add_calls_on_readiness:
  "add_calls (on_readiness props sid obs w) = add_calls w + (if satisfied obs then 1 else 0)"
  by (simp add: add_calls_def calls_on_readiness)

lemma run_Aborted: "run evs (Aborted, w) = (Aborted, w)"
  by (induction evs) simp_all

lemma run_Unmounted: "run evs (Unmounted, w) = (Unmounted, w)"
  by (induction evs) simp_all

lemma layers_dispose: "layers (dispose_layer i w) = removeAll i (layers w)"
  by (simp add: dispose_layer_def Let_def)

lemma run_changes:
  "run (map (\<lambda>(il, src). Changed il src) obs) (Active props sid, w) =
     (Active props sid, observe_all props sid obs w)"
  by (induction obs arbitrary: w) auto

lemma present_run_Active:
  "layerId props \<in> set (layers (snd (run evs (Active props sid, w)))) \<longleftrightarrow>
     Unmount \<notin> set evs \<and>
     (layerId props \<in> set (layers w) \<or>
      (\<exists>il src. Changed il src \<in> set evs \<and> satisfied (il, src)))"
proof (induction evs arbitrary: w)
  case Nil
  show ?case by simp
next
  case (Cons e es)
  show ?case
  proof (cases e)
    case (Changed il src)
    then show ?thesis
      using Cons.IH [of "on_readiness props sid (il, src) w"]
      by (auto simp add: layers_on_readiness)
  next
    case Unmount
    then show ?thesis
      by (simp add: run_Unmounted layers_dispose)
  qed
qed

subsection \<open>Repeated satisfied observations\<close>

text \<open>
  C1, as stated, fails. Engine ready throughout, source readiness observed as false,
  true, false, true: after the first three observations the layer is in the engine and
  one add-layer call has been issued; the fourth observation issues a second add-layer
  call although the layer is still present.
\<close>

theorem second_add_layer_counterexample:
  "layerId \<lparr>layerId = ''hills'', source = Some (SourceName ''dem''), before = None,
            layout = None, paint = None\<rparr>
     \<in> set (layers (observe_all
          \<lparr>layerId = ''hills'', source = Some (SourceName ''dem''), before = None,
            layout = None, paint = None\<rparr> None
          [(True, Some False), (True, Some True), (True, Some False)]
          \<lparr>layers = [], forwarded = [], calls = [], warnings = []\<rparr>))
   \<and> add_calls (observe_all
          \<lparr>layerId = ''hills'', source = Some (SourceName ''dem''), before = None,
            layout = None, paint = None\<rparr> None
          [(True, Some False), (True, Some True), (True, Some False)]
          \<lparr>layers = [], forwarded = [], calls = [], warnings = []\<rparr>) = 1
   \<and> \<not> add_calls (observe_all
          \<lparr>layerId = ''hills'', source = Some (SourceName ''dem''), before = None,
            layout = None, paint = None\<rparr> None
          [(True, Some False), (True, Some True), (True, Some False), (True, Some True)]
          \<lparr>layers = [], forwarded = [], calls = [], warnings = []\<rparr>) \<le> 1"
  by (simp add: on_readiness_def satisfied_def addLayer_def registerLayerEvents_def
      add_calls_def or_undefined_def truthy_str_def)

text \<open>
  C1, amended. The watcher does not look at the engine: over any sequence of
  observations it issues one add-layer call for every observation at which the engine
  is ready and the source readiness is true or undefined, whether or not the layer is
  already present.
\<close>

theorem one_add_layer_per_satisfied_observation:
  "add_calls (observe_all props sid obs w) = add_calls w + length (filter satisfied obs)"
  by (induction obs arbitrary: w) (simp_all add: add_calls_on_readiness)

subsection \<open>Presence of the layer\<close>

text \<open>
  C2, as stated, fails. A component is set up with the engine ready and its source
  registered, so the layer is created; then the source readiness flips to false. The
  component is still mounted and the layer is still in the engine, although the pair is
  no longer satisfied.
\<close>

theorem layer_stays_after_readiness_lost_counterexample:
  "\<not> (layerId \<lparr>layerId = ''hills'', source = Some (SourceName ''dem''), before = None,
               layout = None, paint = None\<rparr>
        \<in> set (layers (snd (run [Changed True (Some False)]
             (hillshade_setup
                \<lparr>layerId = ''hills'', source = Some (SourceName ''dem''), before = None,
                  layout = None, paint = None\<rparr>
                \<lparr>sourceId = None, isLoaded = True, sourceRef = Some True\<rparr>
                \<lparr>layers = [], forwarded = [], calls = [], warnings = []\<rparr>))))
      \<longleftrightarrow>
        satisfied (True, Some False)
        \<and> fst (run [Changed True (Some False)]
             (hillshade_setup
                \<lparr>layerId = ''hills'', source = Some (SourceName ''dem''), before = None,
                  layout = None, paint = None\<rparr>
                \<lparr>sourceId = None, isLoaded = True, sourceRef = Some True\<rparr>
                \<lparr>layers = [], forwarded = [], calls = [], warnings = []\<rparr>)) \<noteq> Unmounted)"
  by (simp add: hillshade_setup_def watch_def truthy_source_def truthy_str_def
      on_readiness_def satisfied_def addLayer_def registerLayerEvents_def)

text \<open>
  C2, amended. For a component that passed source resolution, set up on an engine that
  does not hold its layer: in every state reached afterwards, the layer is present if
  and only if the component has not been unmounted and the pair (engine ready, source
  readiness true or undefined) was satisfied at some observation so far, the one at
  setup included. A later loss of readiness does not remove the layer. (The unmount
  step is the teardown of \<open>dispose_layer\<close>.)
\<close>

theorem layer_present_iff_satisfied_once_and_mounted:
  assumes "truthy_str (sourceId ctx) \<or> truthy_source (source props)"
    and "layerId props \<notin> set (layers w)"
  shows "layerId props \<in> set (layers (snd (run evs (hillshade_setup props ctx w)))) \<longleftrightarrow>
           Unmount \<notin> set evs \<and>
           (satisfied (isLoaded ctx, sourceRef ctx) \<or>
            (\<exists>il src. Changed il src \<in> set evs \<and> satisfied (il, src)))"
proof -
  have "hillshade_setup props ctx w =
          (Active props (sourceId ctx),
           on_readiness props (sourceId ctx) (isLoaded ctx, sourceRef ctx) w)"
    using assms(1) by (auto simp add: hillshade_setup_def watch_def)
  then show ?thesis
    using assms(2) by (auto simp add: present_run_Active layers_on_readiness)
qed

text \<open>
  C2, an instance of the amended statement: a layer under the source \<open>dem\<close>, set up
  while the source is not registered. After the source was registered and lost again the
  layer is present; after the source was registered and the component unmounted it is
  absent.
\<close>

theorem layer_present_iff_satisfied_once_and_mounted_witness:
  "(truthy_str (sourceId \<lparr>sourceId = Some ''dem'', isLoaded = True, sourceRef = Some False\<rparr>)
      \<or> truthy_source None)
   \<and> ''hills'' \<notin> set (layers \<lparr>layers = [], forwarded = [], calls = [], warnings = []\<rparr>)
   \<and> ''hills'' \<in> set (layers (snd (run [Changed True (Some True), Changed True (Some False)]
        (hillshade_setup
           \<lparr>layerId = ''hills'', source = None, before = None, layout = None, paint = None\<rparr>
           \<lparr>sourceId = Some ''dem'', isLoaded = True, sourceRef = Some False\<rparr>
           \<lparr>layers = [], forwarded = [], calls = [], warnings = []\<rparr>))))
   \<and> ''hills'' \<notin> set (layers (snd (run [Changed True (Some True), Unmount]
        (hillshade_setup
           \<lparr>layerId = ''hills'', source = None, before = None, layout = None, paint = None\<rparr>
           \<lparr>sourceId = Some ''dem'', isLoaded = True, sourceRef = Some False\<rparr>
           \<lparr>layers = [], forwarded = [], calls = [], warnings = []\<rparr>))))"
  using layer_present_iff_satisfied_once_and_mounted
    [of "\<lparr>sourceId = Some ''dem'', isLoaded = True, sourceRef = Some False\<rparr>"
        "\<lparr>layerId = ''hills'', source = None, before = None, layout = None, paint = None\<rparr>"
        "\<lparr>layers = [], forwarded = [], calls = [], warnings = []\<rparr>"
        "[Changed True (Some True), Changed True (Some False)]"]
    layer_present_iff_satisfied_once_and_mounted
    [of "\<lparr>sourceId = Some ''dem'', isLoaded = True, sourceRef = Some False\<rparr>"
        "\<lparr>layerId = ''hills'', source = None, before = None, layout = None, paint = None\<rparr>"
        "\<lparr>layers = [], forwarded = [], calls = [], warnings = []\<rparr>"
        "[Changed True (Some True), Unmount]"]
  by (auto simp add: truthy_str_def satisfied_def)

subsection \<open>Unresolved source\<close>

text \<open>
  C4. A layer component set up with neither an injected source id nor a source prop
  (both falsy; absent values are the case \<open>None\<close>) records the diagnostic and returns
  early. No watcher and no teardown exist afterwards: whatever observations and unmount
  follow, the component stays aborted, no add-layer call (no engine call at all) is
  issued, and the engine's layers and forwarded listeners are as before; only the
  diagnostic was added.
\<close>

theorem unresolved_source_aborts:
  assumes "\<not> truthy_str (sourceId ctx)" and "\<not> truthy_source (source props)"
  shows "run evs (hillshade_setup props ctx w) =
           (Aborted,
            w\<lparr>warnings := warnings w @
               [''Hillshade Layer: layer must be used inside source tag or source prop must be set'']\<rparr>)
         \<and> calls (snd (run evs (hillshade_setup props ctx w))) = calls w
         \<and> add_calls (snd (run evs (hillshade_setup props ctx w))) = add_calls w
         \<and> layers (snd (run evs (hillshade_setup props ctx w))) = layers w
         \<and> forwarded (snd (run evs (hillshade_setup props ctx w))) = forwarded w"
  using assms by (simp add: hillshade_setup_def run_Aborted warn_def add_calls_def)

text \<open>
  C4, an instance: no injected source id and no source prop; three lifecycle events
  later the engine is untouched and the diagnostic is the only trace.
\<close>

theorem unresolved_source_aborts_witness:
  "\<not> truthy_str (sourceId \<lparr>sourceId = None, isLoaded = True, sourceRef = None\<rparr>)
   \<and> \<not> truthy_source (source \<lparr>layerId = ''hills'', source = None, before = None,
         layout = None, paint = None\<rparr>)
   \<and> run [Changed True (Some True), Changed True None, Unmount]
        (hillshade_setup
           \<lparr>layerId = ''hills'', source = None, before = None, layout = None, paint = None\<rparr>
           \<lparr>sourceId = None, isLoaded = True, sourceRef = None\<rparr>
           \<lparr>layers = [], forwarded = [], calls = [], warnings = []\<rparr>) =
       (Aborted,
        \<lparr>layers = [], forwarded = [], calls = [],
         warnings = [''Hillshade Layer: layer must be used inside source tag or source prop must be set'']\<rparr>)"
  using unresolved_source_aborts
    [of "\<lparr>sourceId = None, isLoaded = True, sourceRef = None\<rparr>"
        "\<lparr>layerId = ''hills'', source = None, before = None, layout = None, paint = None\<rparr>"
        "[Changed True (Some True), Changed True None, Unmount]"
        "\<lparr>layers = [], forwarded = [], calls = [], warnings = []\<rparr>"]
  by (simp add: truthy_str_def truthy_source_def)

subsection \<open>Creation at setup\<close>

text \<open>
  C5. When a component passes source resolution and the pair is already satisfied at
  setup (engine ready, source readiness true or undefined), \<open>setup\<close> itself issues the
  add-layer call, followed by the event registration: the layer is in the engine when
  \<open>setup\<close> returns, before any change is delivered.
\<close>

theorem satisfied_at_setup_creates_immediately:
  assumes "truthy_str (sourceId ctx) \<or> truthy_source (source props)"
    and "isLoaded ctx"
    and "sourceRef ctx = Some True \<or> sourceRef ctx = None"
  shows "fst (hillshade_setup props ctx w) = Active props (sourceId ctx)
         \<and> calls (snd (hillshade_setup props ctx w)) =
             calls w @
               [AddLayer (GenLayerOpts (layerId props) ''hillshade'' props (sourceId ctx))
                  (or_undefined (before props)),
                RegisterLayerEvents (layerId props)]
         \<and> add_calls (snd (hillshade_setup props ctx w)) = Suc (add_calls w)
         \<and> layerId props \<in> set (layers (snd (hillshade_setup props ctx w)))"
proof -
  have sat: "satisfied (isLoaded ctx, sourceRef ctx)"
    using assms(2,3) by (simp add: satisfied_def)
  have "hillshade_setup props ctx w =
          (Active props (sourceId ctx),
           on_readiness props (sourceId ctx) (isLoaded ctx, sourceRef ctx) w)"
    using assms(1) by (auto simp add: hillshade_setup_def watch_def)
  then show ?thesis
    using sat by (simp add: calls_on_readiness layers_on_readiness add_calls_def)
qed

text \<open>
  C5, an instance: engine ready and no source dependency (\<open>undefined\<close>) at setup.
\<close>

theorem satisfied_at_setup_creates_immediately_witness:
  "(truthy_str (sourceId \<lparr>sourceId = Some ''dem'', isLoaded = True, sourceRef = None\<rparr>)
      \<or> truthy_source None)
   \<and> isLoaded \<lparr>sourceId = Some ''dem'', isLoaded = True, sourceRef = None\<rparr>
   \<and> (sourceRef \<lparr>sourceId = Some ''dem'', isLoaded = True, sourceRef = None\<rparr> = Some True
      \<or> sourceRef \<lparr>sourceId = Some ''dem'', isLoaded = True, sourceRef = None\<rparr> = None)
   \<and> calls (snd (hillshade_setup
        \<lparr>layerId = ''hills'', source = None, before = Some ''roads'', layout = None, paint = None\<rparr>
        \<lparr>sourceId = Some ''dem'', isLoaded = True, sourceRef = None\<rparr>
        \<lparr>layers = [], forwarded = [], calls = [], warnings = []\<rparr>)) =
       [AddLayer (GenLayerOpts ''hills'' ''hillshade''
           \<lparr>layerId = ''hills'', source = None, before = Some ''roads'', layout = None, paint = None\<rparr>
           (Some ''dem'')) (Some ''roads''),
        RegisterLayerEvents ''hills'']"
  using satisfied_at_setup_creates_immediately
    [of "\<lparr>sourceId = Some ''dem'', isLoaded = True, sourceRef = None\<rparr>"
        "\<lparr>layerId = ''hills'', source = None, before = Some ''roads'', layout = None, paint = None\<rparr>"
        "\<lparr>layers = [], forwarded = [], calls = [], warnings = []\<rparr>"]
  by (simp add: truthy_str_def or_undefined_def)

subsection \<open>Teardown\<close>

lemma calls_dispose_present:
  "i \<in> set (layers w) \<Longrightarrow>
     calls (dispose_layer i w) = calls w @ [UnregisterLayerEvents i, RemoveLayer i]"
  by (simp add: dispose_layer_def Let_def)

lemma forwarded_dispose: "forwarded (dispose_layer i w) = removeAll i (forwarded w)"
  by (simp add: dispose_layer_def Let_def)

text \<open>
  C6. For a binding whose layer is in the engine, unmounting issues exactly one
  remove-layer call and detaches the forwarded listeners of the layer, whatever the
  pair (engine ready, source readiness) was when last observed before the unmount. The
  teardown is \<open>dispose_layer\<close>.
\<close>

theorem unmount_after_creation_removes_once:
  assumes "layerId props \<in> set (layers w)"
  shows "fst (run [Changed il src, Unmount] (Active props sid, w)) = Unmounted
         \<and> remove_calls (snd (run [Changed il src, Unmount] (Active props sid, w))) =
             Suc (remove_calls w)
         \<and> layerId props \<notin> set (layers (snd (run [Changed il src, Unmount] (Active props sid, w))))
         \<and> layerId props \<notin> set (forwarded (snd (run [Changed il src, Unmount] (Active props sid, w))))
         \<and> calls (snd (deliver Unmount (Active props sid, w))) =
             calls w @ [UnregisterLayerEvents (layerId props), RemoveLayer (layerId props)]"
proof -
  let ?w1 = "on_readiness props sid (il, src) w"
  have present: "layerId props \<in> set (layers ?w1)"
    using assms by (simp add: layers_on_readiness)
  have "remove_calls (dispose_layer (layerId props) ?w1) = Suc (remove_calls w)"
    by (simp add: calls_dispose_present [OF present] remove_calls_def calls_on_readiness)
  then show ?thesis
    using assms by (simp add: layers_dispose forwarded_dispose calls_dispose_present)
qed

text \<open>
  C6, an instance: the layer is in the engine, the last observation before the unmount
  has both flags false.
\<close>

theorem unmount_after_creation_removes_once_witness:
  "layerId \<lparr>layerId = ''hills'', source = None, before = None, layout = None, paint = None\<rparr>
     \<in> set (layers \<lparr>layers = [''hills''], forwarded = [''hills''],
          calls = [RegisterLayerEvents ''hills''], warnings = []\<rparr>)
   \<and> remove_calls (snd (run [Changed False (Some False), Unmount]
        (Active \<lparr>layerId = ''hills'', source = None, before = None, layout = None, paint = None\<rparr>
           (Some ''dem''),
         \<lparr>layers = [''hills''], forwarded = [''hills''],
          calls = [RegisterLayerEvents ''hills''], warnings = []\<rparr>))) = 1
   \<and> forwarded (snd (run [Changed False (Some False), Unmount]
        (Active \<lparr>layerId = ''hills'', source = None, before = None, layout = None, paint = None\<rparr>
           (Some ''dem''),
         \<lparr>layers = [''hills''], forwarded = [''hills''],
          calls = [RegisterLayerEvents ''hills''], warnings = []\<rparr>))) = []"
  using unmount_after_creation_removes_once
    [of "\<lparr>layerId = ''hills'', source = None, before = None, layout = None, paint = None\<rparr>"
        "\<lparr>layers = [''hills''], forwarded = [''hills''],
          calls = [RegisterLayerEvents ''hills''], warnings = []\<rparr>"
        False "Some False" "Some ''dem''"]
  by (simp add: remove_calls_def on_readiness_def satisfied_def dispose_layer_def)

section \<open>Properties of the popup\<close>

subsection \<open>What the watchers and hooks leave alone\<close>

lemma popup_update_keeps:
  "listeners (popup_update p) = listeners p"
  "on_map (popup_update p) = on_map p"
  "on_marker (popup_update p) = on_marker p"
  "content (popup_update p) = content p"
  "pcalls (popup_update p) = pcalls p"
  by (simp_all add: popup_update_def)

lemmas popup_method_defs =
  setPopup_def setLngLat_def addTo_def setText_def setDOMContent_def setOffset_def
  setMaxWidth_def setSubpixelPositioning_def popup_on_def popup_off_def popup_remove_def

lemma class_method_keeps:
  "listeners (snd (addClassName c p)) = listeners p"
  "listeners (snd (removeClassName c p)) = listeners p"
  "on_map (snd (addClassName c p)) = on_map p"
  "on_map (snd (removeClassName c p)) = on_map p"
  "content (snd (addClassName c p)) = content p"
  "content (snd (removeClassName c p)) = content p"
  by (simp_all add: addClassName_def removeClassName_def Let_def split: option.splits sum.splits)

lemma when_truthy_raising_keeps:
  "listeners (snd (when_truthy_raising v addClassName p)) = listeners p"
  "listeners (snd (when_truthy_raising v removeClassName p)) = listeners p"
  "on_map (snd (when_truthy_raising v addClassName p)) = on_map p"
  "on_map (snd (when_truthy_raising v removeClassName p)) = on_map p"
  "content (snd (when_truthy_raising v addClassName p)) = content p"
  "content (snd (when_truthy_raising v removeClassName p)) = content p"
  by (simp_all add: when_truthy_raising_def class_method_keeps split: option.splits)

lemma on_className_keeps:
  "listeners (snd (on_className v prev p)) = listeners p"
  "on_map (snd (on_className v prev p)) = on_map p"
  "content (snd (on_className v prev p)) = content p"
proof -
  obtain e1 p1 where r: "when_truthy_raising prev removeClassName p = (e1, p1)"
    by (cases "when_truthy_raising prev removeClassName p") simp
  have p1: "listeners p1 = listeners p" "on_map p1 = on_map p" "content p1 = content p"
    using when_truthy_raising_keeps [of prev p] by (simp_all add: r)
  show "listeners (snd (on_className v prev p)) = listeners p"
    by (cases e1) (simp_all add: on_className_def r p1 when_truthy_raising_keeps)
  show "on_map (snd (on_className v prev p)) = on_map p"
    by (cases e1) (simp_all add: on_className_def r p1 when_truthy_raising_keeps)
  show "content (snd (on_className v prev p)) = content p"
    by (cases e1) (simp_all add: on_className_def r p1 when_truthy_raising_keeps)
qed

lemmas watcher_defs =
  on_coordinates_def on_text_def on_offset_def on_maxWidth_def on_subpixelPositioning_def










subsection \<open>Removal and unmount\<close>


subsection \<open>Placement at setup\<close>

lemma pcalls_setup:
  "pcalls (pop (popup_setup props ctx)) =
     pcalls (place props ctx (new_Popup props)) @
     when_truthy (text_p props) (\<lambda>t cs. cs @ [SetText t]) [] @
     [On ''open'' (EmitFn ''open''), On ''close'' (EmitFn ''close'')]"
  by (simp add: popup_setup_def Let_def emitEvent_def popup_on_def when_truthy_def setText_def
      popup_update_keeps split: option.splits)

lemma pcalls_place:
  "pcalls (place props ctx (new_Popup props)) =
     (case marker_inj ctx of
        Some (Some m) \<Rightarrow> [MarkerSetPopup m]
      | _ \<Rightarrow>
        (case coordinates props of
           None \<Rightarrow> []
         | Some c \<Rightarrow> (case map_inj ctx of None \<Rightarrow> [] | Some mp \<Rightarrow> [SetLngLat c, AddTo mp])))"
  by (simp add: place_def new_Popup_def setPopup_def setLngLat_def addTo_def popup_update_keeps
      split: option.splits)

lemma state_setup:
  "on_map (pop (popup_setup props ctx)) = on_map (place props ctx (new_Popup props))"
  "on_marker (pop (popup_setup props ctx)) = on_marker (place props ctx (new_Popup props))"
  by (simp_all add: popup_setup_def Let_def emitEvent_def popup_on_def when_truthy_def setText_def
      popup_update_keeps split: option.splits)

text \<open>
  C8. Inside a marker (the injected reference is there and holds a marker), \<open>setup\<close>
  hands the popup to the marker with \<open>setPopup\<close> and issues neither \<open>setLngLat\<close> nor
  \<open>addTo\<close>, whatever the coordinates prop is. \<open>setup\<close> issues \<open>setLngLat\<close> and \<open>addTo\<close>
  exactly when there is no marker and both the coordinates and the injected map are
  there; they are then its first two calls, in this order.
\<close>

theorem popup_inside_marker_is_not_added_to_map:
  "(marker_inj ctx = Some (Some m) \<longrightarrow>
      on_marker (pop (popup_setup props ctx)) = Some m
      \<and> on_map (pop (popup_setup props ctx)) = None
      \<and> filter is_marker_set_popup (pcalls (pop (popup_setup props ctx))) = [MarkerSetPopup m]
      \<and> filter is_add_to (pcalls (pop (popup_setup props ctx))) = []
      \<and> filter is_set_lng_lat (pcalls (pop (popup_setup props ctx))) = [])
   \<and> (list_ex is_add_to (pcalls (pop (popup_setup props ctx))) \<longleftrightarrow>
        (marker_inj ctx = None \<or> marker_inj ctx = Some None)
        \<and> coordinates props \<noteq> None \<and> map_inj ctx \<noteq> None)
   \<and> (list_ex is_set_lng_lat (pcalls (pop (popup_setup props ctx))) \<longleftrightarrow>
        (marker_inj ctx = None \<or> marker_inj ctx = Some None)
        \<and> coordinates props \<noteq> None \<and> map_inj ctx \<noteq> None)
   \<and> ((marker_inj ctx = None \<or> marker_inj ctx = Some None)
        \<and> coordinates props = Some c \<and> map_inj ctx = Some mp \<longrightarrow>
        take 2 (pcalls (pop (popup_setup props ctx))) = [SetLngLat c, AddTo mp]
        \<and> on_map (pop (popup_setup props ctx)) = Some mp
        \<and> on_marker (pop (popup_setup props ctx)) = None)"
  by (auto simp add: pcalls_setup pcalls_place state_setup place_def new_Popup_def
      setPopup_def setLngLat_def addTo_def popup_update_keeps when_truthy_def
      split: option.splits)

text \<open>
  C8, two instances with the same props, coordinates included: inside marker 7, and
  with no marker under map 1.
\<close>

theorem popup_inside_marker_is_not_added_to_map_witness:
  "marker_inj \<lparr>map_inj = Some 1, marker_inj = Some (Some 7)\<rparr> = Some (Some 7)
   \<and> on_marker (pop (popup_setup
      \<lparr>coordinates = Some (LngLat 13 52), closeButton = True, closeOnClick = True,
       closeOnMove = False, focusAfterOpen = True, anchor = None, offset = None,
       className = Some ''a'', maxWidth = ''240px'', subpixelPositioning = False,
       text_p = None\<rparr>
      \<lparr>map_inj = Some 1, marker_inj = Some (Some 7)\<rparr>)) = Some 7
   \<and> on_map (pop (popup_setup
      \<lparr>coordinates = Some (LngLat 13 52), closeButton = True, closeOnClick = True,
       closeOnMove = False, focusAfterOpen = True, anchor = None, offset = None,
       className = Some ''a'', maxWidth = ''240px'', subpixelPositioning = False,
       text_p = None\<rparr>
      \<lparr>map_inj = Some 1, marker_inj = Some (Some 7)\<rparr>)) = None
   \<and> filter is_add_to (pcalls (pop (popup_setup
      \<lparr>coordinates = Some (LngLat 13 52), closeButton = True, closeOnClick = True,
       closeOnMove = False, focusAfterOpen = True, anchor = None, offset = None,
       className = Some ''a'', maxWidth = ''240px'', subpixelPositioning = False,
       text_p = None\<rparr>
      \<lparr>map_inj = Some 1, marker_inj = Some (Some 7)\<rparr>))) = []
   \<and> (marker_inj \<lparr>map_inj = Some 1, marker_inj = None\<rparr> = None
      \<or> marker_inj \<lparr>map_inj = Some 1, marker_inj = None\<rparr> = Some None)
   \<and> coordinates
      \<lparr>coordinates = Some (LngLat 13 52), closeButton = True, closeOnClick = True,
       closeOnMove = False, focusAfterOpen = True, anchor = None, offset = None,
       className = Some ''a'', maxWidth = ''240px'', subpixelPositioning = False,
       text_p = None\<rparr> = Some (LngLat 13 52)
   \<and> map_inj \<lparr>map_inj = Some 1, marker_inj = None\<rparr> = Some 1
   \<and> take 2 (pcalls (pop (popup_setup
      \<lparr>coordinates = Some (LngLat 13 52), closeButton = True, closeOnClick = True,
       closeOnMove = False, focusAfterOpen = True, anchor = None, offset = None,
       className = Some ''a'', maxWidth = ''240px'', subpixelPositioning = False,
       text_p = None\<rparr>
      \<lparr>map_inj = Some 1, marker_inj = None\<rparr>))) = [SetLngLat (LngLat 13 52), AddTo 1]"
  using popup_inside_marker_is_not_added_to_map
    [where ctx = "\<lparr>map_inj = Some 1, marker_inj = Some (Some 7)\<rparr>" and m = 7
       and props = "\<lparr>coordinates = Some (LngLat 13 52), closeButton = True, closeOnClick = True,
       closeOnMove = False, focusAfterOpen = True, anchor = None, offset = None,
       className = Some ''a'', maxWidth = ''240px'', subpixelPositioning = False,
       text_p = None\<rparr>"]
    popup_inside_marker_is_not_added_to_map
    [where ctx = "\<lparr>map_inj = Some 1, marker_inj = None\<rparr>" and c = "LngLat 13 52" and mp = 1
       and props = "\<lparr>coordinates = Some (LngLat 13 52), closeButton = True, closeOnClick = True,
       closeOnMove = False, focusAfterOpen = True, anchor = None, offset = None,
       className = Some ''a'', maxWidth = ''240px'', subpixelPositioning = False,
       text_p = None\<rparr>"]
  by simp

subsection \<open>The class name\<close>













subsection \<open>The text\<close>

lemma content_watchers:
  "content (on_coordinates c p) = content p"
  "content (on_offset v p) = content p"
  "content (on_maxWidth mw p) = content p"
  "content (on_subpixelPositioning b p) = content p"
  by (simp_all add: watcher_defs popup_method_defs popup_update_keeps split: option.splits)

lemma text_watcher:
  "content (on_text v p) = TextContent (or_empty v)"
  "pcalls (on_text v p) = pcalls p @ [SetText (or_empty v)]"
  by (simp_all add: on_text_def setText_def popup_update_keeps)

text \<open>
  C10. When the \<open>text\<close> prop changes to \<open>undefined\<close> the watcher sets the popup's text
  to the empty string; when it changes to a defined value the text is set to exactly
  that value. A prop update changes the content this way when, and only when, the text
  prop differs from the one seen before.
\<close>

theorem text_cleared_sets_empty_string:
  "content (on_text None p) = TextContent []
   \<and> pcalls (on_text None p) = pcalls p @ [SetText []]
   \<and> content (on_text (Some t) p) = TextContent t
   \<and> pcalls (on_text (Some t) p) = pcalls p @ [SetText t]
   \<and> content (pop (props_updated new inst)) =
       (if text_p new \<noteq> text_p (cur inst)
        then TextContent (case text_p new of None \<Rightarrow> [] | Some t \<Rightarrow> t)
        else content (pop inst))"
  by (simp add: props_updated_def Let_def content_watchers text_watcher on_className_keeps
      or_empty_def split: option.splits)

end
